theory Spec2Isabelle
  imports Main "HOL-Library.Sublist"
begin

section \<open>Values exchanged with the sandbox\<close>

text \<open>
  Both programs of the repository (the gateway \<^verbatim>\<open>main.py\<close> and the sandbox server
  \<^verbatim>\<open>session-container/server.py\<close>) work on parsed JSON bodies. A parsed body is a Python
  value built from \<^verbatim>\<open>None\<close>, booleans, integers, strings, lists and dictionaries. A
  dictionary is kept as an association list \<open>kvs\<close> that stands for the dictionary
  \<open>map_of kvs\<close>: its keys are \<open>fst ` set kvs\<close>, and of two entries with one key the first
  is read. Strings are byte lists (UTF-8); every needle searched for below is ASCII, so
  searching bytes and searching code points agree. Floating-point numbers are not part
  of the model.
\<close>

datatype json =
    JNull
  | JBool bool
  | JInt int
  | JStr string
  | JArr "json list"
  | JObj "(string \<times> json) list"

text \<open>The exceptions that the code can meet; every one of them is caught and reported.\<close>

datatype exn =
    RequestException string
  | Timeout string
  | JSONDecodeError
  | TypeError
  | AttributeError
  | OtherException string

text \<open>\<^verbatim>\<open>requests.exceptions.Timeout\<close> is a subclass of \<^verbatim>\<open>RequestException\<close>.\<close>

fun is_RequestException :: "exn \<Rightarrow> bool" where
  "is_RequestException (RequestException m) = True"
| "is_RequestException (Timeout m) = True"
| "is_RequestException e = False"

fun is_Timeout :: "exn \<Rightarrow> bool" where
  "is_Timeout (Timeout m) = True"
| "is_Timeout e = False"

subsection \<open>Python operators on parsed values\<close>

text \<open>Truth value of a Python object, as used by \<^verbatim>\<open>if x\<close>, \<^verbatim>\<open>not x\<close>, \<^verbatim>\<open>x or y\<close>.\<close>

fun truthy :: "json \<Rightarrow> bool" where
  "truthy JNull = False"
| "truthy (JBool b) = b"
| "truthy (JInt n) = (n \<noteq> 0)"
| "truthy (JStr s) = (s \<noteq> [])"
| "truthy (JArr xs) = (xs \<noteq> [])"
| "truthy (JObj kvs) = (kvs \<noteq> [])"

text \<open>
  \<^verbatim>\<open>x != 0\<close>: booleans are integers in Python (\<^verbatim>\<open>False == 0\<close>), every other kind of
  value differs from \<^verbatim>\<open>0\<close>; in particular \<^verbatim>\<open>None != 0\<close> is true.
\<close>

fun ne_zero :: "json \<Rightarrow> bool" where
  "ne_zero (JInt n) = (n \<noteq> 0)"
| "ne_zero (JBool b) = b"
| "ne_zero v = True"

text \<open>\<^verbatim>\<open>d.get(k, default)\<close> on a dictionary.\<close>

definition dict_get :: "(string \<times> json) list \<Rightarrow> string \<Rightarrow> json \<Rightarrow> json" where
  "dict_get kvs k d = (case map_of kvs k of None \<Rightarrow> d | Some v \<Rightarrow> v)"

text \<open>
  \<^verbatim>\<open>k in v\<close> for a string \<open>k\<close>: a substring test on a string, a membership test on a
  list (only a string element equals a string), a key test on a dictionary, and a
  \<^verbatim>\<open>TypeError\<close> on \<^verbatim>\<open>None\<close>, booleans and integers.
\<close>

fun py_in :: "string \<Rightarrow> json \<Rightarrow> exn + bool" where
  "py_in k (JStr s) = Inr (sublist k s)"
| "py_in k (JArr xs) = Inr (JStr k \<in> set xs)"
| "py_in k (JObj kvs) = Inr (k \<in> fst ` set kvs)"
| "py_in k v = Inl TypeError"

text \<open>\<^verbatim>\<open>any(...)\<close> over a generator: stops at the first true element or the first raise.\<close>

fun py_any :: "(exn + bool) list \<Rightarrow> exn + bool" where
  "py_any [] = Inr False"
| "py_any (Inl e # rest) = Inl e"
| "py_any (Inr True # rest) = Inr True"
| "py_any (Inr False # rest) = py_any rest"

section \<open>The gateway: \<^verbatim>\<open>main.py\<close>\<close>

subsection \<open>Session store and tool tracking\<close>

text \<open>
  One entry of \<^verbatim>\<open>active_sessions\<close>. The keys \<^verbatim>\<open>last_used\<close>, \<^verbatim>\<open>last_status\<close> and
  \<^verbatim>\<open>last_returnCode\<close> are not in the dictionary when it is created, so they are optional;
  \<^verbatim>\<open>last_returnCode\<close> may also hold \<^verbatim>\<open>None\<close>, which is \<open>Some JNull\<close>.
\<close>

record session =
  created_at :: string
  execution_count :: int
  last_used :: "string option"
  last_stdout :: json
  last_stderr :: json
  last_status :: "string option"
  last_returnCode :: "json option"

text \<open>A Python dictionary keeps its keys in the order of their first insertion.\<close>

type_synonym store = "(string \<times> session) list"

record tool_record =
  name :: string
  icon :: string
  description :: string
  session_id :: "string option"

text \<open>The three module-level variables that the tools read and write.\<close>

record state =
  active_sessions :: store
  current_tools_used :: "tool_record list"
  current_request_sessions :: "string set"

subsection \<open>Failure classification of an HTTP 200 body\<close>

definition error_keywords :: "string list" where
  "error_keywords =
     [''Error:'', ''Traceback'', ''Exception:'', ''ImportError:'', ''ModuleNotFoundError:'',
      ''SyntaxError:'', ''NameError:'', ''TypeError:'', ''ValueError:'', ''AttributeError:'']"

definition has_error_in_stdout :: "json \<Rightarrow> exn + bool" where
  "has_error_in_stdout stdout = py_any (map (\<lambda>error_keyword. py_in error_keyword stdout) error_keywords)"

text \<open>
  The branch \<^verbatim>\<open>if "properties" in result\<close> (lines 278-317), applied to
  \<^verbatim>\<open>props = result["properties"]\<close> and to the session's dictionary. The result is the
  exception that interrupted the branch, if any, and the dictionary as it stands then.
\<close>

definition wrapped_format :: "json \<Rightarrow> session \<Rightarrow> exn option \<times> session" where
  "wrapped_format props sess =
     (case props of
        JObj kvs \<Rightarrow>
          (let stdout = dict_get kvs ''stdout'' (JStr '''');
               stderr = dict_get kvs ''stderr'' (JStr '''');
               status = dict_get kvs ''status'' (JStr '''');
               return_code = dict_get kvs ''returnCode'' JNull;
               sess1 = sess\<lparr>last_stdout := stdout, last_stderr := stderr,
                            last_returnCode := Some return_code\<rparr>
           in case has_error_in_stdout stdout of
                Inl e \<Rightarrow> (Some e, sess1)
              | Inr has_error \<Rightarrow>
                  if truthy stderr \<or> has_error \<or> status = JStr ''Failed''
                     \<or> (truthy return_code \<and> ne_zero return_code)
                  then (None,
                        if has_error \<and> \<not> truthy stderr
                        then sess1\<lparr>last_status := Some ''Failed'', last_stderr := stdout,
                                   last_stdout := JStr ''''\<rparr>
                        else sess1\<lparr>last_status := Some ''Failed''\<rparr>)
                  else (None, sess1\<lparr>last_status := Some ''Success''\<rparr>))
      | _ \<Rightarrow> (Some AttributeError, sess))"

text \<open>The \<^verbatim>\<open>else\<close> branch (lines 319-357): fields at the top level of the body.\<close>

definition direct_format :: "(string \<times> json) list \<Rightarrow> session \<Rightarrow> exn option \<times> session" where
  "direct_format result sess =
     (let stdout = dict_get result ''output'' (JStr '''');
          stderr = dict_get result ''error'' (JStr '''');
          return_code = dict_get result ''return_code'' (JInt 0);
          success = dict_get result ''success'' (JBool True)
      in case has_error_in_stdout stdout of
           Inl e \<Rightarrow> (Some e, sess)
         | Inr has_error \<Rightarrow>
             if truthy stderr \<or> has_error \<or> \<not> truthy success \<or> ne_zero return_code
             then (None,
                   (if has_error \<and> \<not> truthy stderr
                    then sess\<lparr>last_stderr := stdout, last_stdout := JStr ''''\<rparr>
                    else sess\<lparr>last_stdout := stdout, last_stderr := stderr\<rparr>)
                   \<lparr>last_status := Some ''Failed'',
                    last_returnCode := Some (if ne_zero return_code then return_code else JInt 1)\<rparr>)
             else (None, sess\<lparr>last_stdout := stdout, last_stderr := stderr,
                               last_status := Some ''Success'',
                               last_returnCode := Some return_code\<rparr>))"

text \<open>
  The dispatch on the shape of the body (line 278). \<^verbatim>\<open>"properties" in result\<close> raises on
  a body that is no container; on a list or a string both continuations raise
  (\<^verbatim>\<open>result["properties"]\<close> needs an integer index, \<^verbatim>\<open>result.get\<close> does not exist).
\<close>

fun extract_result :: "json \<Rightarrow> session \<Rightarrow> exn option \<times> session" where
  "extract_result (JObj kvs) sess =
     (case map_of kvs ''properties'' of
        Some props \<Rightarrow> wrapped_format props sess
      | None \<Rightarrow> direct_format kvs sess)"
| "extract_result (JArr xs) sess =
     (if JStr ''properties'' \<in> set xs then (Some TypeError, sess) else (Some AttributeError, sess))"
| "extract_result (JStr s) sess =
     (if sublist ''properties'' s then (Some TypeError, sess) else (Some AttributeError, sess))"
| "extract_result v sess = (Some TypeError, sess)"

subsection \<open>Reports returned to the agent\<close>

text \<open>
  The tool returns a formatted string. A report is kept as the list of the pieces of the
  f-string: literal text, and \<^verbatim>\<open>str(v)\<close> of an interpolated value or exception, which is
  not expanded. The symbols that start the messages are written as their UTF-8 bytes.
\<close>

datatype frag = Lit string | PyStr json | ExcStr exn

type_synonym report = "frag list"

definition cross_mark :: string where
  "cross_mark = [CHR 0xE2, CHR 0x9D, CHR 0x8C]"

definition check_mark :: string where
  "check_mark = [CHR 0xE2, CHR 0x9C, CHR 0x85]"

definition hourglass :: string where
  "hourglass = [CHR 0xE2, CHR 0x8F, CHR 0xB3]"

definition alarm_clock :: string where
  "alarm_clock = [CHR 0xE2, CHR 0x8F, CHR 0xB0]"

definition package_icon :: string where
  "package_icon = [CHR 0xF0, CHR 0x9F, CHR 0x93, CHR 0xA6]"

definition wrench_icon :: string where
  "wrench_icon = [CHR 0xF0, CHR 0x9F, CHR 0x94, CHR 0xA7]"

definition nl :: string where
  "nl = [CHR 0x0A]"

text \<open>The literal text \<open>t\<close> occurs in the report.\<close>

fun lit_contains :: "string \<Rightarrow> frag \<Rightarrow> bool" where
  "lit_contains t (Lit s) = sublist t s"
| "lit_contains t f = False"

definition report_contains :: "string \<Rightarrow> report \<Rightarrow> bool" where
  "report_contains t r = list_ex (lit_contains t) r"

text \<open>Lines 368-382 and 386-399: the two f-strings of an HTTP 200 answer.\<close>

definition execution_failed :: "string \<Rightarrow> json \<Rightarrow> string \<Rightarrow> json \<Rightarrow> report" where
  "execution_failed sid return_code code error_text =
     [Lit (cross_mark @ '' **Code Execution Failed**'' @ nl @ nl @ ''**Session ID:** ''),
      Lit (take 12 sid), Lit (''...'' @ nl @ ''**Return Code:** ''), PyStr return_code,
      Lit (nl @ nl @ ''**Code Executed:**'' @ nl @ ''```python'' @ nl), Lit code,
      Lit (nl @ ''```'' @ nl @ nl @ ''**Error:**'' @ nl @ ''```'' @ nl), PyStr error_text,
      Lit (nl @ ''```'' @ nl)]"

definition execution_successful :: "string \<Rightarrow> string \<Rightarrow> json \<Rightarrow> report" where
  "execution_successful sid code output_text =
     [Lit (check_mark @ '' **Code Execution Successful**'' @ nl @ nl @ ''**Session ID:** ''),
      Lit (take 12 sid),
      Lit (''...'' @ nl @ nl @ ''**Code Executed:**'' @ nl @ ''```python'' @ nl), Lit code,
      Lit (nl @ ''```'' @ nl @ nl @ ''**Output:**'' @ nl @ ''```'' @ nl), PyStr output_text,
      Lit (nl @ ''```'' @ nl)]"

text \<open>
  Lines 359-402: the report of an HTTP 200 answer, chosen from the values read back from
  the session's dictionary.
\<close>

definition format_output :: "string \<Rightarrow> string \<Rightarrow> session \<Rightarrow> report" where
  "format_output sid code sess =
     (let return_code = (case last_returnCode sess of None \<Rightarrow> JInt 0 | Some v \<Rightarrow> v);
          status = (case last_status sess of None \<Rightarrow> ''Success'' | Some v \<Rightarrow> v);
          stderr = last_stderr sess;
          stdout = last_stdout sess
      in if status = ''Failed'' \<or> ne_zero return_code \<or> truthy stderr
         then execution_failed sid return_code code (if truthy stderr then stderr else stdout)
         else execution_successful sid code
                (if truthy stdout then stdout else JStr ''(no output)''))"

definition configuration_error :: report where
  "configuration_error =
     [Lit (cross_mark @ '' Configuration Error: Azure Container Apps session pool not configured. Set AZURE_CONTAINER_APPS_SESSION_POOL_ENDPOINT environment variable.'')]"

definition authentication_error :: "exn \<Rightarrow> report" where
  "authentication_error e =
     [Lit ''Authentication error: Unable to get access token. Error: '', ExcStr e]"

definition network_error :: "exn \<Rightarrow> report" where
  "network_error e =
     [Lit ''Network error: Unable to connect to session pool. Error: '', ExcStr e]"

definition execution_error :: "int \<Rightarrow> string \<Rightarrow> report" where
  "execution_error code detail =
     [Lit (cross_mark @ '' Execution Error: Session execution failed (HTTP ''), PyStr (JInt code),
      Lit ''): '', Lit detail]"

definition poll_timed_out :: report where
  "poll_timed_out =
     [Lit (hourglass @ '' Code execution initiated but timed out waiting for result. Check session pool status.'')]"

definition no_polling_url :: report where
  "no_polling_url = [Lit (hourglass @ '' Code execution accepted but no polling URL provided.'')]"

definition async_success :: "json \<Rightarrow> report" where
  "async_success execution_result =
     [Lit (check_mark @ '' Code executed successfully:'' @ nl @ nl), PyStr execution_result]"

text \<open>
  The two handlers that close the second \<^verbatim>\<open>try\<close> block (lines 428-435):
  \<^verbatim>\<open>except requests.exceptions.Timeout\<close>, then \<^verbatim>\<open>except Exception\<close>.
\<close>

definition outer_handler :: "exn \<Rightarrow> report" where
  "outer_handler e =
     (if is_Timeout e
      then [Lit (alarm_clock @ '' Timeout Error: Session execution timed out after 30 seconds'')]
      else [Lit (cross_mark @ '' System Error: Unexpected error during session execution: ''),
            ExcStr e])"

subsection \<open>The world outside the process\<close>

text \<open>
  What \<^verbatim>\<open>requests\<close> hands back: the status code, the text of the body, the parsed body
  (\<open>None\<close> when \<^verbatim>\<open>response.json()\<close> raises) and the \<^verbatim>\<open>Location\<close> header.
\<close>

record response =
  status_code :: int
  body_text :: string
  body_json :: "json option"
  location :: "string option"

text \<open>
  Everything one call of the tool reads from outside: the environment variable, the
  identifier \<^verbatim>\<open>uuid.uuid4().hex\<close> would produce, the outcome of the token request, of the
  POST and of the \<open>i\<close>-th poll, and the two clock readings.
\<close>

record world =
  SESSION_POOL_ENDPOINT :: "string option"
  uuid4_hex :: string
  get_token :: "exn + string"
  requests_post :: "exn + response"
  requests_get :: "nat \<Rightarrow> exn + response"
  now_created :: string
  now_used :: string

text \<open>What one call does to the outside, in order.\<close>

datatype event = GetToken | Post string string | Sleep nat | Get string

subsection \<open>The execution tool\<close>

text \<open>Lines 156-162: reuse the last key of the store, or mint an identifier.\<close>

definition pick_session :: "world \<Rightarrow> store \<Rightarrow> string" where
  "pick_session w sessions =
     (if sessions \<noteq> [] then fst (last sessions) else take 12 (uuid4_hex w))"

text \<open>Lines 167-174: record the invocation once per request and session.\<close>

definition track_session :: "string \<Rightarrow> state \<Rightarrow> state" where
  "track_session sid s =
     (if sid \<notin> current_request_sessions s
      then s\<lparr>current_tools_used := current_tools_used s @
                 [\<lparr>name = ''execute_in_dynamic_session'', icon = package_icon,
                   description = ''Python Execution'', session_id = Some sid\<rparr>],
              current_request_sessions := insert sid (current_request_sessions s)\<rparr>
      else s)"

text \<open>\<^verbatim>\<open>d[k] = v\<close>: an existing key keeps its place, a new key goes to the end.\<close>

definition store_put :: "string \<Rightarrow> session \<Rightarrow> store \<Rightarrow> store" where
  "store_put sid sess sessions =
     (if sid \<in> fst ` set sessions
      then map (\<lambda>(k, v). if k = sid then (k, sess) else (k, v)) sessions
      else sessions @ [(sid, sess)])"

text \<open>
  Lines 258-269: the session's dictionary is created when absent, then its counters are
  updated.
\<close>

definition touch_session :: "world \<Rightarrow> string \<Rightarrow> store \<Rightarrow> session" where
  "touch_session w sid sessions =
     (let sess0 = (case map_of sessions sid of
                     None \<Rightarrow> \<lparr>created_at = now_created w, execution_count = 0,
                               last_used = None, last_stdout = JStr [],
                               last_stderr = JStr [], last_status = None,
                               last_returnCode = None\<rparr>
                   | Some sess \<Rightarrow> sess)
      in sess0\<lparr>execution_count := execution_count sess0 + 1,
               last_used := Some (now_used w)\<rparr>)"

text \<open>
  Lines 252-402. After the counters the body is read; an exception on the way leaves in
  the store what was written so far.
\<close>

definition http_200 :: "world \<Rightarrow> string \<Rightarrow> string \<Rightarrow> response \<Rightarrow> store \<Rightarrow> report \<times> store" where
  "http_200 w code sid r sessions =
     (case body_json r of
        None \<Rightarrow> (outer_handler JSONDecodeError, sessions)
      | Some result \<Rightarrow>
          (let (raised, sess) = extract_result result (touch_session w sid sessions)
           in (case raised of
                 Some e \<Rightarrow> outer_handler e
               | None \<Rightarrow> format_output sid code sess,
               store_put sid sess sessions)))"

text \<open>Lines 412-418: what one poll answer yields.\<close>

definition poll_answer :: "response \<Rightarrow> exn + report option" where
  "poll_answer r =
     (if status_code r = 200
      then (case body_json r of
              None \<Rightarrow> Inl JSONDecodeError
            | Some (JObj kvs) \<Rightarrow>
                (case dict_get kvs ''properties'' (JObj []) of
                   JObj props \<Rightarrow>
                     if dict_get props ''status'' JNull = JStr ''Completed''
                     then Inr (Some (async_success
                            (case map_of props ''result'' of
                               Some v \<Rightarrow> v
                             | None \<Rightarrow> JObj kvs)))
                     else Inr None
                 | _ \<Rightarrow> Inl AttributeError)
            | Some _ \<Rightarrow> Inl AttributeError)
      else Inr None)"

text \<open>
  Lines 409-419: \<^verbatim>\<open>for _ in range(10)\<close>, as a recursion on the attempts that remain;
  \<open>i\<close> counts the polls already made.
\<close>

fun poll_loop :: "(nat \<Rightarrow> exn + response) \<Rightarrow> string \<Rightarrow> nat \<Rightarrow> nat \<Rightarrow> report \<times> event list" where
  "poll_loop polls poll_url i 0 = (poll_timed_out, [])"
| "poll_loop polls poll_url i (Suc n) =
     (case polls i of
        Inl e \<Rightarrow> (outer_handler e, [Sleep 1, Get poll_url])
      | Inr poll_response \<Rightarrow>
          (case poll_answer poll_response of
             Inl e \<Rightarrow> (outer_handler e, [Sleep 1, Get poll_url])
           | Inr (Some success_msg) \<Rightarrow> (success_msg, [Sleep 1, Get poll_url])
           | Inr None \<Rightarrow>
               (let (rep, evs) = poll_loop polls poll_url (Suc i) n
                in (rep, [Sleep 1, Get poll_url] @ evs))))"

text \<open>Lines 404-421.\<close>

definition http_202 :: "world \<Rightarrow> response \<Rightarrow> report \<times> event list" where
  "http_202 w r =
     (case location r of
        None \<Rightarrow> (no_polling_url, [])
      | Some poll_url \<Rightarrow>
          if poll_url = [] then (no_polling_url, [])
          else poll_loop (requests_get w) poll_url 0 10)"

text \<open>
  The tool itself (lines 131-435): the report, the three module variables afterwards,
  and what was done to the outside.
\<close>

definition execute_in_dynamic_session :: "world \<Rightarrow> string \<Rightarrow> state \<Rightarrow> report \<times> state \<times> event list" where
  "execute_in_dynamic_session w code s =
     (let session_id = pick_session w (active_sessions s);
          s1 = track_session session_id s
      in case SESSION_POOL_ENDPOINT w of
           None \<Rightarrow> (configuration_error, s1, [])
         | Some endpoint \<Rightarrow>
             if endpoint = [] then (configuration_error, s1, [])
             else (case get_token w of
                     Inl auth_error \<Rightarrow> (authentication_error auth_error, s1, [GetToken])
                   | Inr token \<Rightarrow>
                       (let session_url = endpoint @ ''/execute?identifier='' @ session_id;
                            sent = [GetToken, Post session_url code]
                        in case requests_post w of
                             Inl req_error \<Rightarrow>
                               (if is_RequestException req_error then network_error req_error
                                else outer_handler req_error, s1, sent)
                           | Inr r \<Rightarrow>
                               if status_code r = 200
                               then (let (rep, sessions) =
                                           http_200 w code session_id r (active_sessions s1)
                                     in (rep, s1\<lparr>active_sessions := sessions\<rparr>, sent))
                               else if status_code r = 202
                               then (let (rep, evs) = http_202 w r
                                     in (rep, s1, sent @ evs))
                               else (execution_error (status_code r) (body_text r), s1, sent))))"

text \<open>Lines 113-128: the other tool records itself on every call.\<close>

definition search_tools_available :: "state \<Rightarrow> state" where
  "search_tools_available s =
     s\<lparr>current_tools_used := current_tools_used s @
          [\<lparr>name = ''search_tools_available'', icon = wrench_icon,
            description = ''Tool discovery'', session_id = None\<rparr>]\<rparr>"

subsection \<open>One chat request\<close>

text \<open>
  The agent is outside the program; during \<^verbatim>\<open>agent.run\<close> it calls the tools some number of
  times, each call of the execution tool in the world it finds then.
\<close>

datatype tool_call = Search | Execute world string

fun run_tool :: "tool_call \<Rightarrow> state \<Rightarrow> state" where
  "run_tool Search s = search_tools_available s"
| "run_tool (Execute w code) s = fst (snd (execute_in_dynamic_session w code s))"

fun agent_run :: "tool_call list \<Rightarrow> state \<Rightarrow> state" where
  "agent_run [] s = s"
| "agent_run (c # cs) s = agent_run cs (run_tool c s)"






section \<open>The sandbox server: \<^verbatim>\<open>session-container/server.py\<close>\<close>






















section \<open>Notions used in the statements\<close>

subsection \<open>An HTTP 200 answer and the session it leaves\<close>

text \<open>
  The call reaches the sandbox and is answered with status 200 and a body that parses
  to \<open>body\<close>.
\<close>

definition answers_200 :: "world \<Rightarrow> json \<Rightarrow> bool" where
  "answers_200 w body =
     (case SESSION_POOL_ENDPOINT w of
        None \<Rightarrow> False
      | Some endpoint \<Rightarrow>
          endpoint \<noteq> [] \<and>
          (case get_token w of
             Inl e \<Rightarrow> False
           | Inr token \<Rightarrow>
               (case requests_post w of
                  Inl e \<Rightarrow> False
                | Inr r \<Rightarrow> status_code r = 200 \<and> body_json r = Some body)))"

text \<open>The store's entry, after the call, for the session the call has picked.\<close>

definition session_after :: "world \<Rightarrow> string \<Rightarrow> state \<Rightarrow> session option" where
  "session_after w code s =
     map_of (active_sessions (fst (snd (execute_in_dynamic_session w code s))))
       (pick_session w (active_sessions s))"

definition stored :: "(session \<Rightarrow> 'a) \<Rightarrow> world \<Rightarrow> string \<Rightarrow> state \<Rightarrow> 'a option" where
  "stored field w code s = map_option field (session_after w code s)"

text \<open>What reading the body does to the picked session's dictionary.\<close>

definition classified :: "world \<Rightarrow> state \<Rightarrow> json \<Rightarrow> exn option \<times> session" where
  "classified w s body =
     extract_result body
       (touch_session w (pick_session w (active_sessions s)) (active_sessions s))"

text \<open>
  The two shapes of a body: the dictionary under \<^verbatim>\<open>"properties"\<close> (wrapped), or the
  body itself when it has no such key (direct).
\<close>

fun wrapped_props :: "json \<Rightarrow> (string \<times> json) list option" where
  "wrapped_props (JObj kvs) =
     (case map_of kvs ''properties'' of Some (JObj props) \<Rightarrow> Some props | _ \<Rightarrow> None)"
| "wrapped_props v = None"

fun direct_fields :: "json \<Rightarrow> (string \<times> json) list option" where
  "direct_fields (JObj kvs) = (if map_of kvs ''properties'' = None then Some kvs else None)"
| "direct_fields v = None"

subsection \<open>An HTTP 202 answer and its polls\<close>






text \<open>\<open>k\<close> polls, each after a sleep of one second.\<close>

definition polling :: "nat \<Rightarrow> string \<Rightarrow> event list" where
  "polling k poll_url = concat (replicate k [Sleep 1, Get poll_url])"

subsection \<open>Identifiers and records\<close>

definition is_hex :: "char \<Rightarrow> bool" where
  "is_hex c = (c \<in> set ''0123456789abcdef'')"

text \<open>The URLs that a call has posted to.\<close>

fun posted :: "event list \<Rightarrow> string list" where
  "posted [] = []"
| "posted (Post url code # evs) = url # posted evs"
| "posted (e # evs) = posted evs"

text \<open>The URL that the tool posts to for the session \<open>sid\<close> (line 232).\<close>

definition session_url :: "world \<Rightarrow> string \<Rightarrow> string option" where
  "session_url w sid =
     (case SESSION_POOL_ENDPOINT w of
        None \<Rightarrow> None
      | Some endpoint \<Rightarrow> Some (endpoint @ ''/execute?identifier='' @ sid))"

text \<open>
  A call works on the session \<open>sid\<close>: it marks \<open>sid\<close> as seen in the request, posts to
  no URL but the one of \<open>sid\<close>, and adds no key to the store unless it is \<open>sid\<close>.
\<close>

definition uses_session :: "world \<Rightarrow> string \<Rightarrow> state \<Rightarrow> string \<Rightarrow> bool" where
  "uses_session w code s sid =
     (case execute_in_dynamic_session w code s of
        (rep, s', evs) \<Rightarrow>
          current_request_sessions s' = insert sid (current_request_sessions s) \<and>
          list_all (\<lambda>url. session_url w sid = Some url) (posted evs) \<and>
          (map fst (active_sessions s') = map fst (active_sessions s) \<or>
           map fst (active_sessions s') = map fst (active_sessions s) @ [sid]))"


text \<open>The record that \<^verbatim>\<open>execute_in_dynamic_session\<close> appends for \<open>sid\<close>.\<close>

definition execution_record :: "string \<Rightarrow> tool_record" where
  "execution_record sid =
     \<lparr>name = ''execute_in_dynamic_session'', icon = package_icon,
      description = ''Python Execution'', session_id = Some sid\<rparr>"

subsection \<open>Bodies of the sandbox server\<close>






section \<open>Concrete inputs\<close>

text \<open>The module's variables when the process starts (lines 107, 110 and 510).\<close>

definition initial_state :: state where
  "initial_state =
     \<lparr>active_sessions = [], current_tools_used = [], current_request_sessions = {}\<rparr>"

text \<open>The module's variables at the start of a request, after one successful execution.\<close>

definition one_session_state :: state where
  "one_session_state =
     \<lparr>active_sessions =
        [(''0123456789ab'',
          \<lparr>created_at = ''2025-01-01T00:00:00'', execution_count = 1,
           last_used = Some ''2025-01-01T00:00:01'', last_stdout = JStr ''ok'',
           last_stderr = JStr [], last_status = Some ''Success'',
           last_returnCode = Some (JInt 0)\<rparr>)],
      current_tools_used = [], current_request_sessions = {}\<rparr>"

text \<open>A configured gateway whose POST is answered by \<open>r\<close> and whose polls by \<open>polls\<close>.\<close>

definition sandbox_world :: "response \<Rightarrow> (nat \<Rightarrow> exn + response) \<Rightarrow> world" where
  "sandbox_world r polls =
     \<lparr>SESSION_POOL_ENDPOINT = Some ''https://pool.example'',
      uuid4_hex = ''0123456789abcdef0123456789abcdef'',
      get_token = Inr ''token'',
      requests_post = Inr r,
      requests_get = polls,
      now_created = ''2025-01-01T00:00:00'',
      now_used = ''2025-01-01T00:00:01''\<rparr>"

text \<open>Polls that cannot reach the sandbox: \<^verbatim>\<open>requests.get\<close> raises a connection error.\<close>

definition no_polls :: "nat \<Rightarrow> exn + response" where
  "no_polls i = Inl (RequestException [])"

definition ok_response :: "json \<Rightarrow> response" where
  "ok_response body = \<lparr>status_code = 200, body_text = [], body_json = Some body, location = None\<rparr>"

definition world_200 :: "json \<Rightarrow> world" where
  "world_200 body = sandbox_world (ok_response body) no_polls"

text \<open>The same gateway without \<^verbatim>\<open>AZURE_CONTAINER_APPS_SESSION_POOL_ENDPOINT\<close>.\<close>

definition unconfigured_world :: world where
  "unconfigured_world = (world_200 JNull)\<lparr>SESSION_POOL_ENDPOINT := None\<rparr>"

text \<open>Direct shape, \<^verbatim>\<open>{"output": "4\n", "error": "", "return_code": null, "success": true}\<close>.\<close>

definition null_return_code_body :: json where
  "null_return_code_body =
     JObj [(''output'', JStr (''4'' @ nl)), (''error'', JStr []), (''return_code'', JNull),
           (''success'', JBool True)]"

text \<open>
  Direct shape, the traceback on standard output:
  \<^verbatim>\<open>{"output": "Traceback...\nZeroDivisionError: division by zero\n", "error": "",
  "return_code": 1, "success": false}\<close>.
\<close>

definition traceback_body :: json where
  "traceback_body =
     JObj [(''output'', JStr (''Traceback...'' @ nl @ ''ZeroDivisionError: division by zero'' @ nl)),
           (''error'', JStr []), (''return_code'', JInt 1), (''success'', JBool False)]"

text \<open>
  Wrapped shape,
  \<^verbatim>\<open>{"properties": {"status": "Success", "stdout": "ok", "stderr": "", "returnCode": 0}}\<close>.
\<close>

definition success_body :: json where
  "success_body =
     JObj [(''properties'',
            JObj [(''status'', JStr ''Success''), (''stdout'', JStr ''ok''), (''stderr'', JStr []),
                  (''returnCode'', JInt 0)])]"

text \<open>
  Wrapped shape, a failure that only the status field tells:
  \<^verbatim>\<open>{"properties": {"status": "Failed", "stdout": "ok", "stderr": "", "returnCode": 0}}\<close>.
\<close>

definition failed_status_body :: json where
  "failed_status_body =
     JObj [(''properties'',
            JObj [(''status'', JStr ''Failed''), (''stdout'', JStr ''ok''), (''stderr'', JStr []),
                  (''returnCode'', JInt 0)])]"

text \<open>Direct shape, \<^verbatim>\<open>{"output": "", "error": "", "return_code": 0, "success": false}\<close>.\<close>

definition unsuccessful_body :: json where
  "unsuccessful_body =
     JObj [(''output'', JStr []), (''error'', JStr []), (''return_code'', JInt 0),
           (''success'', JBool False)]"

text \<open>Wrapped shape without a return code, \<^verbatim>\<open>{"properties": {"stdout": "ok", "stderr": ""}}\<close>.\<close>

definition no_return_code_body :: json where
  "no_return_code_body =
     JObj [(''properties'', JObj [(''stdout'', JStr ''ok''), (''stderr'', JStr [])])]"













section \<open>Properties of the gateway\<close>

subsection \<open>The path of an HTTP 200 answer\<close>

lemma map_of_store_put: "map_of (store_put sid sess sessions) sid = Some sess"
proof (cases "sid \<in> fst ` set sessions")
  case True
  then have "map_of (map (\<lambda>(k, v). if k = sid then (k, sess) else (k, v)) sessions) sid = Some sess"
    by (induction sessions) (auto split: prod.splits)
  with True show ?thesis by (simp add: store_put_def)
next
  case False
  then have "map_of sessions sid = None" by (simp add: map_of_eq_None_iff)
  with False show ?thesis by (simp add: store_put_def map_add_def)
qed

lemma active_sessions_track: "active_sessions (track_session sid s) = active_sessions s"
  by (simp add: track_session_def)

lemma execute_200:
  assumes "answers_200 w body"
  shows "fst (execute_in_dynamic_session w code s) =
            (case fst (classified w s body) of
               Some e \<Rightarrow> outer_handler e
             | None \<Rightarrow> format_output (pick_session w (active_sessions s)) code
                         (snd (classified w s body)))"
    and "session_after w code s = Some (snd (classified w s body))"
  using assms
  unfolding answers_200_def session_after_def execute_in_dynamic_session_def http_200_def Let_def
    classified_def
  by (auto simp: map_of_store_put active_sessions_track split: option.splits sum.splits prod.splits)

lemma stored_200:
  "answers_200 w body \<Longrightarrow> stored field w code s = Some (field (snd (classified w s body)))"
  by (simp add: stored_def execute_200(2))

lemma py_any_Inr: "py_any (map (\<lambda>k. Inr (P k)) ks) = Inr (list_ex P ks)"
proof (induction ks)
  case Nil
  show ?case by simp
next
  case (Cons k ks)
  then show ?case by (cases "P k") simp_all
qed

lemma has_error_in_stdout_JStr:
  "has_error_in_stdout (JStr out) = Inr (list_ex (\<lambda>k. sublist k out) error_keywords)"
  unfolding has_error_in_stdout_def by (simp add: py_any_Inr)

lemma classified_wrapped:
  "wrapped_props body = Some props \<Longrightarrow>
   classified w s body =
     wrapped_format (JObj props)
       (touch_session w (pick_session w (active_sessions s)) (active_sessions s))"
  by (cases body) (auto simp: classified_def split: option.splits json.splits)

lemma classified_direct:
  "direct_fields body = Some d \<Longrightarrow>
   classified w s body =
     direct_format d (touch_session w (pick_session w (active_sessions s)) (active_sessions s))"
  by (cases body) (auto simp: classified_def split: option.splits if_splits)

text \<open>
  The status that each branch stores, for every body whose standard output can be
  searched for the keywords (a string, a list or a dictionary).
\<close>

lemma wrapped_status:
  assumes "answers_200 w body" and "wrapped_props body = Some d"
    and "has_error_in_stdout (dict_get d ''stdout'' (JStr [])) = Inr h"
  shows "stored last_status w code s =
           Some (Some (if truthy (dict_get d ''stderr'' (JStr [])) \<or> h
                          \<or> dict_get d ''status'' (JStr []) = JStr ''Failed''
                          \<or> (truthy (dict_get d ''returnCode'' JNull)
                              \<and> ne_zero (dict_get d ''returnCode'' JNull))
                       then ''Failed'' else ''Success''))"
  using assms
  by (simp add: stored_200 classified_wrapped wrapped_format_def Let_def)

lemma direct_status:
  assumes "answers_200 w body" and "direct_fields body = Some d"
    and "has_error_in_stdout (dict_get d ''output'' (JStr [])) = Inr h"
  shows "stored last_status w code s =
           Some (Some (if truthy (dict_get d ''error'' (JStr [])) \<or> h
                          \<or> \<not> truthy (dict_get d ''success'' (JBool True))
                          \<or> ne_zero (dict_get d ''return_code'' (JInt 0))
                       then ''Failed'' else ''Success''))"
  using assms
  by (simp add: stored_200 classified_direct direct_format_def Let_def)

text \<open>
  Claim C2. When the standard output of the answer contains one of the listed error
  substrings and its standard error is empty, the session afterwards holds the original
  standard output as \<^verbatim>\<open>last_stderr\<close>, the empty string as \<^verbatim>\<open>last_stdout\<close> and
  \<^verbatim>\<open>"Failed"\<close> as \<^verbatim>\<open>last_status\<close>, in the wrapped and in the direct shape.
\<close>

theorem stdout_error_moved_to_stderr:
  assumes "answers_200 w body"
    and "wrapped_props body = Some d \<and> out = dict_get d ''stdout'' (JStr [])
           \<and> err = dict_get d ''stderr'' (JStr [])
         \<or> direct_fields body = Some d \<and> out = dict_get d ''output'' (JStr [])
           \<and> err = dict_get d ''error'' (JStr [])"
    and "has_error_in_stdout out = Inr True"
    and "\<not> truthy err"
  shows "stored last_stderr w code s = Some out \<and>
         stored last_stdout w code s = Some (JStr []) \<and>
         stored last_status w code s = Some (Some ''Failed'')"
  using assms(2)
proof
  assume "wrapped_props body = Some d \<and> out = dict_get d ''stdout'' (JStr [])
           \<and> err = dict_get d ''stderr'' (JStr [])"
  with assms(1,3,4) show ?thesis
    by (simp add: stored_200 classified_wrapped wrapped_format_def Let_def)
next
  assume "direct_fields body = Some d \<and> out = dict_get d ''output'' (JStr [])
           \<and> err = dict_get d ''error'' (JStr [])"
  with assms(1,3,4) show ?thesis
    by (simp add: stored_200 classified_direct direct_format_def Let_def)
qed

lemma answers_200_world [simp]: "answers_200 (world_200 body) body"
  by (simp add: answers_200_def world_200_def sandbox_world_def ok_response_def)


text \<open>Evaluation of the keyword search on a concrete text.\<close>

lemmas sub_eval = has_error_in_stdout_JStr error_keywords_def nl_def sublist_code(3)

theorem stdout_error_moved_to_stderr_witness:
  "stored last_stderr (world_200 traceback_body) ''1/0'' initial_state =
     Some (JStr (''Traceback...'' @ nl @ ''ZeroDivisionError: division by zero'' @ nl)) \<and>
   stored last_stdout (world_200 traceback_body) ''1/0'' initial_state = Some (JStr []) \<and>
   stored last_status (world_200 traceback_body) ''1/0'' initial_state = Some (Some ''Failed'')"
proof -
  let ?d = "[(''output'', JStr (''Traceback...'' @ nl @ ''ZeroDivisionError: division by zero'' @ nl)),
             (''error'', JStr []), (''return_code'', JInt 1), (''success'', JBool False)]"
  let ?out = "JStr (''Traceback...'' @ nl @ ''ZeroDivisionError: division by zero'' @ nl)"
  have shape: "wrapped_props traceback_body = Some ?d \<and> ?out = dict_get ?d ''stdout'' (JStr [])
           \<and> JStr [] = dict_get ?d ''stderr'' (JStr [])
         \<or> direct_fields traceback_body = Some ?d \<and> ?out = dict_get ?d ''output'' (JStr [])
           \<and> JStr [] = dict_get ?d ''error'' (JStr [])"
    by (simp add: traceback_body_def dict_get_def)
  have err: "has_error_in_stdout ?out = Inr True"
    by (simp add: sub_eval)
  have empty: "\<not> truthy (JStr [])" by simp
  show ?thesis
    using stdout_error_moved_to_stderr [OF answers_200_world shape err empty] by simp
qed

text \<open>
  Claim C3 reads: empty standard error, no error substring and a return code that is 0
  or absent give \<^verbatim>\<open>"Success"\<close>. A wrapped answer with all three and the status field
  \<^verbatim>\<open>"Failed"\<close> is stored as failed.
\<close>

theorem success_needs_more_counterexample:
  "answers_200 (world_200 failed_status_body) failed_status_body \<and>
   wrapped_props failed_status_body =
     Some [(''status'', JStr ''Failed''), (''stdout'', JStr ''ok''), (''stderr'', JStr []),
           (''returnCode'', JInt 0)] \<and>
   \<not> truthy (JStr []) \<and>
   has_error_in_stdout (JStr ''ok'') = Inr False \<and>
   stored last_status (world_200 failed_status_body) ''print(1)'' initial_state
     \<noteq> Some (Some ''Success'')"
proof -
  let ?d = "[(''status'', JStr ''Failed''), (''stdout'', JStr ''ok''), (''stderr'', JStr []),
             (''returnCode'', JInt 0)]"
  have shape: "wrapped_props failed_status_body = Some ?d"
    by (simp add: failed_status_body_def)
  have clean: "has_error_in_stdout (JStr ''ok'') = Inr False"
    by (simp add: sub_eval)
  have "stored last_status (world_200 failed_status_body) ''print(1)'' initial_state
          = Some (Some ''Failed'')"
    using wrapped_status [OF answers_200_world shape, of False] clean
    by (simp add: dict_get_def)
  with shape clean show ?thesis by simp
qed

text \<open>
  Claim C3, amended. With empty standard error, no error substring in the standard
  output, a return code that is 0 or absent and, in the wrapped shape, a status field
  other than \<^verbatim>\<open>"Failed"\<close>, in the direct shape, a success field that is absent or true,
  the session afterwards holds \<^verbatim>\<open>"Success"\<close> and the standard output and error as read.
\<close>

theorem success_keeps_output:
  assumes "answers_200 w body"
    and "wrapped_props body = Some d \<and> out = dict_get d ''stdout'' (JStr [])
           \<and> err = dict_get d ''stderr'' (JStr [])
           \<and> map_of d ''returnCode'' \<in> {None, Some (JInt 0)}
           \<and> dict_get d ''status'' (JStr []) \<noteq> JStr ''Failed''
         \<or> direct_fields body = Some d \<and> out = dict_get d ''output'' (JStr [])
           \<and> err = dict_get d ''error'' (JStr [])
           \<and> map_of d ''return_code'' \<in> {None, Some (JInt 0)}
           \<and> truthy (dict_get d ''success'' (JBool True))"
    and "has_error_in_stdout out = Inr False"
    and "\<not> truthy err"
  shows "stored last_status w code s = Some (Some ''Success'') \<and>
         stored last_stdout w code s = Some out \<and>
         stored last_stderr w code s = Some err"
  using assms(2)
proof
  assume "wrapped_props body = Some d \<and> out = dict_get d ''stdout'' (JStr [])
           \<and> err = dict_get d ''stderr'' (JStr [])
           \<and> map_of d ''returnCode'' \<in> {None, Some (JInt 0)}
           \<and> dict_get d ''status'' (JStr []) \<noteq> JStr ''Failed''"
  with assms(1,3,4) show ?thesis
    by (auto simp: stored_200 classified_wrapped wrapped_format_def Let_def dict_get_def)
next
  assume "direct_fields body = Some d \<and> out = dict_get d ''output'' (JStr [])
           \<and> err = dict_get d ''error'' (JStr [])
           \<and> map_of d ''return_code'' \<in> {None, Some (JInt 0)}
           \<and> truthy (dict_get d ''success'' (JBool True))"
  with assms(1,3,4) show ?thesis
    by (auto simp: stored_200 classified_direct direct_format_def Let_def dict_get_def)
qed

theorem success_keeps_output_witness:
  "stored last_status (world_200 success_body) ''print(1)'' initial_state = Some (Some ''Success'') \<and>
   stored last_stdout (world_200 success_body) ''print(1)'' initial_state = Some (JStr ''ok'') \<and>
   stored last_stderr (world_200 success_body) ''print(1)'' initial_state = Some (JStr [])"
proof -
  let ?d = "[(''status'', JStr ''Success''), (''stdout'', JStr ''ok''), (''stderr'', JStr []),
             (''returnCode'', JInt 0)]"
  have shape: "wrapped_props success_body = Some ?d \<and> JStr ''ok'' = dict_get ?d ''stdout'' (JStr [])
           \<and> JStr [] = dict_get ?d ''stderr'' (JStr [])
           \<and> map_of ?d ''returnCode'' \<in> {None, Some (JInt 0)}
           \<and> dict_get ?d ''status'' (JStr []) \<noteq> JStr ''Failed''
         \<or> direct_fields success_body = Some ?d \<and> JStr ''ok'' = dict_get ?d ''output'' (JStr [])
           \<and> JStr [] = dict_get ?d ''error'' (JStr [])
           \<and> map_of ?d ''return_code'' \<in> {None, Some (JInt 0)}
           \<and> truthy (dict_get ?d ''success'' (JBool True))"
    by (simp add: success_body_def dict_get_def)
  have clean: "has_error_in_stdout (JStr ''ok'') = Inr False"
    by (simp add: sub_eval)
  have empty: "\<not> truthy (JStr [])" by simp
  show ?thesis
    using success_keeps_output [OF answers_200_world shape clean empty] by simp
qed

text \<open>
  Claim C9. For a direct-shape answer that is marked \<^verbatim>\<open>"Failed"\<close>: when its return code
  is 0 or absent the session holds 1 as \<^verbatim>\<open>last_returnCode\<close>, and when it is a non-zero
  integer the session holds it unchanged.
\<close>

theorem direct_failed_return_code:
  assumes "answers_200 w body" and "direct_fields body = Some d"
    and "has_error_in_stdout (dict_get d ''output'' (JStr [])) = Inr h"
    and "stored last_status w code s = Some (Some ''Failed'')"
  shows "(map_of d ''return_code'' \<in> {None, Some (JInt 0)} \<longrightarrow>
            stored last_returnCode w code s = Some (Some (JInt 1))) \<and>
         (\<forall>n. n \<noteq> 0 \<and> map_of d ''return_code'' = Some (JInt n) \<longrightarrow>
            stored last_returnCode w code s = Some (Some (JInt n)))"
proof -
  let ?rc = "dict_get d ''return_code'' (JInt 0)"
  have "stored last_status w code s \<noteq> Some (Some ''Success'')"
    using assms(4) by simp
  with direct_status [OF assms(1-3), of code s]
  have failed: "truthy (dict_get d ''error'' (JStr [])) \<or> h
                  \<or> \<not> truthy (dict_get d ''success'' (JBool True)) \<or> ne_zero ?rc"
    by (simp split: if_splits)
  have "stored last_returnCode w code s = Some (Some (if ne_zero ?rc then ?rc else JInt 1))"
    using assms(3) failed
    by (simp add: stored_200 [OF assms(1)] classified_direct [OF assms(2)] direct_format_def
        Let_def)
  then show ?thesis
    by (auto simp: dict_get_def)
qed

theorem direct_failed_return_code_witness:
  "stored last_returnCode (world_200 unsuccessful_body) ''exit()'' initial_state
     = Some (Some (JInt 1)) \<and>
   stored last_returnCode (world_200 traceback_body) ''1/0'' initial_state
     = Some (Some (JInt 1))"
proof -
  let ?d = "[(''output'', JStr []), (''error'', JStr []), (''return_code'', JInt 0),
             (''success'', JBool False)]"
  have shape: "direct_fields unsuccessful_body = Some ?d"
    by (simp add: unsuccessful_body_def)
  have clean: "has_error_in_stdout (dict_get ?d ''output'' (JStr [])) = Inr False"
    by (simp add: dict_get_def sub_eval)
  have failed: "stored last_status (world_200 unsuccessful_body) ''exit()'' initial_state
                  = Some (Some ''Failed'')"
    using direct_status [OF answers_200_world shape clean] by (simp add: dict_get_def)
  let ?t = "[(''output'', JStr (''Traceback...'' @ nl @ ''ZeroDivisionError: division by zero'' @ nl)),
             (''error'', JStr []), (''return_code'', JInt 1), (''success'', JBool False)]"
  have shape2: "direct_fields traceback_body = Some ?t"
    by (simp add: traceback_body_def)
  have err2: "has_error_in_stdout (dict_get ?t ''output'' (JStr [])) = Inr True"
    by (simp add: dict_get_def sub_eval)
  have failed2: "stored last_status (world_200 traceback_body) ''1/0'' initial_state
                  = Some (Some ''Failed'')"
    using direct_status [OF answers_200_world shape2 err2] by (simp add: dict_get_def)
  show ?thesis
    using direct_failed_return_code [OF answers_200_world shape clean failed]
      direct_failed_return_code [OF answers_200_world shape2 err2 failed2]
    by simp
qed

text \<open>
  Claim C10. For a wrapped-shape answer without \<^verbatim>\<open>returnCode\<close>, with empty standard
  error, no error substring in the standard output and a status other than
  \<^verbatim>\<open>"Failed"\<close>: the session holds \<^verbatim>\<open>"Success"\<close> and the return code \<^verbatim>\<open>None\<close>, and the
  report is the one of a failed execution, since \<^verbatim>\<open>None != 0\<close> holds.
\<close>

theorem missing_return_code_reported_failed:
  assumes "answers_200 w body" and "wrapped_props body = Some d"
    and "map_of d ''returnCode'' = None"
    and "\<not> truthy (dict_get d ''stderr'' (JStr []))"
    and "has_error_in_stdout (dict_get d ''stdout'' (JStr [])) = Inr False"
    and "dict_get d ''status'' (JStr []) \<noteq> JStr ''Failed''"
  shows "stored last_status w code s = Some (Some ''Success'') \<and>
         stored last_returnCode w code s = Some (Some JNull) \<and>
         ne_zero JNull \<and>
         fst (execute_in_dynamic_session w code s) =
           execution_failed (pick_session w (active_sessions s)) JNull code
             (dict_get d ''stdout'' (JStr []))"
  using assms
  by (simp add: stored_200 execute_200(1) classified_wrapped wrapped_format_def Let_def
      dict_get_def format_output_def)

theorem missing_return_code_reported_failed_witness:
  "stored last_status (world_200 no_return_code_body) ''print(1)'' initial_state
     = Some (Some ''Success'') \<and>
   stored last_returnCode (world_200 no_return_code_body) ''print(1)'' initial_state
     = Some (Some JNull) \<and>
   fst (execute_in_dynamic_session (world_200 no_return_code_body) ''print(1)'' initial_state) =
     execution_failed ''0123456789ab'' JNull ''print(1)'' (JStr ''ok'') \<and>
   report_contains ''Code Execution Failed''
     (fst (execute_in_dynamic_session (world_200 no_return_code_body) ''print(1)'' initial_state))"
proof -
  let ?d = "[(''stdout'', JStr ''ok''), (''stderr'', JStr [])]"
  have shape: "wrapped_props no_return_code_body = Some ?d"
    by (simp add: no_return_code_body_def)
  have absent: "map_of ?d ''returnCode'' = None" by simp
  have empty: "\<not> truthy (dict_get ?d ''stderr'' (JStr []))" by (simp add: dict_get_def)
  have clean: "has_error_in_stdout (dict_get ?d ''stdout'' (JStr [])) = Inr False"
    by (simp add: dict_get_def sub_eval)
  have status: "dict_get ?d ''status'' (JStr []) \<noteq> JStr ''Failed''" by (simp add: dict_get_def)
  have sid: "pick_session (world_200 no_return_code_body) (active_sessions initial_state)
               = ''0123456789ab''"
    by (simp add: pick_session_def initial_state_def world_200_def sandbox_world_def)
  have shown: "report_contains ''Code Execution Failed''
                 (execution_failed ''0123456789ab'' JNull ''print(1)'' (JStr ''ok''))"
    by (simp add: report_contains_def execution_failed_def cross_mark_def nl_def sublist_code(3))
  show ?thesis
    using missing_return_code_reported_failed [OF answers_200_world shape absent empty clean status,
        of "''print(1)''" initial_state] shown
    by (simp add: sid dict_get_def)
qed

text \<open>
  Claim C1 lets a return code \<^verbatim>\<open>null\<close> count as zero in both shapes. The wrapped branch
  does so (\<open>wrapped_status\<close>); the direct branch compares \<^verbatim>\<open>return_code != 0\<close> without
  that guard (\<open>direct_status\<close>). Here the code is run on the direct-shape answer
  \<^verbatim>\<open>{"output": "4\n", "error": "", "return_code": null, "success": true}\<close>: standard
  error is empty, the standard output has no error substring, success is true, and the
  session is stored as \<^verbatim>\<open>"Failed"\<close> with the return code \<^verbatim>\<open>None\<close>.
\<close>

theorem direct_null_return_code_marked_failed:
  "answers_200 (world_200 null_return_code_body) null_return_code_body \<and>
   direct_fields null_return_code_body =
     Some [(''output'', JStr (''4'' @ nl)), (''error'', JStr []), (''return_code'', JNull),
           (''success'', JBool True)] \<and>
   has_error_in_stdout (JStr (''4'' @ nl)) = Inr False \<and>
   stored last_status (world_200 null_return_code_body) ''print(2 + 2)'' initial_state
     = Some (Some ''Failed'') \<and>
   stored last_returnCode (world_200 null_return_code_body) ''print(2 + 2)'' initial_state
     = Some (Some JNull)"
proof -
  let ?d = "[(''output'', JStr (''4'' @ nl)), (''error'', JStr []), (''return_code'', JNull),
             (''success'', JBool True)]"
  have shape: "direct_fields null_return_code_body = Some ?d"
    by (simp add: null_return_code_body_def)
  have clean: "has_error_in_stdout (JStr (''4'' @ nl)) = Inr False"
    by (simp add: sub_eval)
  have "stored last_status (world_200 null_return_code_body) ''print(2 + 2)'' initial_state
          = Some (Some ''Failed'')"
    using direct_status [OF answers_200_world shape, of False] clean
    by (simp add: dict_get_def)
  moreover
  have "stored last_returnCode (world_200 null_return_code_body) ''print(2 + 2)'' initial_state
          = Some (Some JNull)"
    using clean
    by (simp add: stored_200 [OF answers_200_world] classified_direct [OF shape]
        direct_format_def Let_def dict_get_def)
  ultimately show ?thesis using shape clean by simp
qed

subsection \<open>Choice of the session\<close>

lemma keys_store_put:
  "map fst (store_put sid sess sessions) =
     (if sid \<in> fst ` set sessions then map fst sessions else map fst sessions @ [sid])"
  by (auto simp: store_put_def split: prod.splits)

lemma seen_track:
  "current_request_sessions (track_session sid s) = insert sid (current_request_sessions s)"
  by (auto simp: track_session_def)

lemma tools_track:
  "current_tools_used (track_session sid s) =
     (if sid \<in> current_request_sessions s then current_tools_used s
      else current_tools_used s @ [execution_record sid])"
  by (simp add: track_session_def execution_record_def)

lemma keys_http_200:
  "map fst (snd (http_200 w code sid r sessions)) = map fst sessions \<or>
   map fst (snd (http_200 w code sid r sessions)) = map fst sessions @ [sid]"
  by (auto simp: http_200_def keys_store_put Let_def split: option.splits prod.splits)

lemma keys_http_200_known:
  "sid \<in> fst ` set sessions \<Longrightarrow> map fst (snd (http_200 w code sid r sessions)) = map fst sessions"
  by (auto simp: http_200_def keys_store_put Let_def split: option.splits prod.splits)

text \<open>The state after a call is the tracked state with some store.\<close>

lemma execute_state:
  "\<exists>sessions. fst (snd (execute_in_dynamic_session w code s)) =
      (track_session (pick_session w (active_sessions s)) s)\<lparr>active_sessions := sessions\<rparr>
    \<and> (map fst sessions = map fst (active_sessions s)
        \<or> map fst sessions = map fst (active_sessions s) @ [pick_session w (active_sessions s)])
    \<and> (pick_session w (active_sessions s) \<in> fst ` set (active_sessions s)
        \<longrightarrow> map fst sessions = map fst (active_sessions s))"
proof -
  let ?sid = "pick_session w (active_sessions s)"
  let ?s1 = "track_session ?sid s"
  have same: "?s1 = ?s1\<lparr>active_sessions := active_sessions s\<rparr>"
    by (simp add: track_session_def)
  show ?thesis
  proof (cases "\<exists>ep tok r. SESSION_POOL_ENDPOINT w = Some ep \<and> ep \<noteq> [] \<and> get_token w = Inr tok
                  \<and> requests_post w = Inr r \<and> status_code r = 200")
    case True
    then obtain ep tok r where h: "SESSION_POOL_ENDPOINT w = Some ep" "ep \<noteq> []"
      "get_token w = Inr tok" "requests_post w = Inr r" "status_code r = 200" by blast
    have "fst (snd (execute_in_dynamic_session w code s)) =
            ?s1\<lparr>active_sessions := snd (http_200 w code ?sid r (active_sessions s))\<rparr>"
      using h by (simp add: execute_in_dynamic_session_def Let_def active_sessions_track
          split: prod.splits)
    then show ?thesis
      using keys_http_200 [of w code ?sid r "active_sessions s"]
        keys_http_200_known [of ?sid "active_sessions s" w code r]
      by blast
  next
    case False
    then have "fst (snd (execute_in_dynamic_session w code s)) = ?s1"
      by (auto simp: execute_in_dynamic_session_def Let_def
          split: option.splits sum.splits prod.splits)
    with same show ?thesis by (metis)
  qed
qed

lemma posted_append: "posted (xs @ ys) = posted xs @ posted ys"
  by (induction xs rule: posted.induct) auto

lemma execute_posted:
  "list_all (\<lambda>url. session_url w (pick_session w (active_sessions s)) = Some url)
     (posted (snd (snd (execute_in_dynamic_session w code s))))"
proof -
  have poll: "posted (snd (poll_loop polls url i n)) = []" for polls url i n
    by (induction n arbitrary: i) (auto simp: split_beta split: sum.splits option.splits)
  have "posted (snd (http_202 w r)) = []" for r
    by (simp add: http_202_def poll split: option.splits)
  then show ?thesis
    by (auto simp: execute_in_dynamic_session_def Let_def session_url_def split_beta
        posted_append split: option.splits sum.splits)
qed


lemma pick_in_keys: "sessions \<noteq> [] \<Longrightarrow> pick_session w sessions \<in> fst ` set sessions"
  by (simp add: pick_session_def)

lemma pick_by_keys:
  "sessions \<noteq> [] \<Longrightarrow> pick_session w sessions = last (map fst sessions)"
  by (simp add: pick_session_def last_map)

lemma uses_session_pick: "uses_session w code s (pick_session w (active_sessions s))"
proof -
  obtain sessions where
    st: "fst (snd (execute_in_dynamic_session w code s)) =
           (track_session (pick_session w (active_sessions s)) s)\<lparr>active_sessions := sessions\<rparr>"
    and keys: "map fst sessions = map fst (active_sessions s)
        \<or> map fst sessions = map fst (active_sessions s) @ [pick_session w (active_sessions s)]"
    using execute_state [of w code s] by blast
  obtain rep s' evs where ex: "execute_in_dynamic_session w code s = (rep, s', evs)"
    by (cases "execute_in_dynamic_session w code s") auto
  from st ex have s': "s' = (track_session (pick_session w (active_sessions s)) s)\<lparr>active_sessions := sessions\<rparr>"
    by simp
  from execute_posted [of w s code] ex
  have "list_all (\<lambda>url. session_url w (pick_session w (active_sessions s)) = Some url) (posted evs)"
    by simp
  with keys show ?thesis
    by (simp add: uses_session_def ex s' seen_track)
qed

lemma run_tool_keys:
  "active_sessions s \<noteq> [] \<Longrightarrow> map fst (active_sessions (run_tool c s)) = map fst (active_sessions s)"
proof (cases c)
  case Search
  then show ?thesis by (simp add: search_tools_available_def)
next
  case (Execute w code)
  assume "active_sessions s \<noteq> []"
  then have "pick_session w (active_sessions s) \<in> fst ` set (active_sessions s)"
    by (rule pick_in_keys)
  with execute_state [of w code s] Execute show ?thesis by auto
qed

lemma agent_run_keys:
  "active_sessions s \<noteq> [] \<Longrightarrow>
   map fst (active_sessions (agent_run calls s)) = map fst (active_sessions s)"
proof (induction calls arbitrary: s)
  case Nil
  show ?case by simp
next
  case (Cons c calls)
  have keys: "map fst (active_sessions (run_tool c s)) = map fst (active_sessions s)"
    using Cons.prems by (rule run_tool_keys)
  with Cons.prems have "active_sessions (run_tool c s) \<noteq> []" by (metis map_is_Nil_conv)
  then show ?case using Cons.IH keys by simp
qed

lemma created_on_200:
  assumes "active_sessions s = []" and "answers_200 w body"
  shows "map fst (active_sessions (fst (snd (execute_in_dynamic_session w code s))))
           = [take 12 (uuid4_hex w)]"
  using assms
  by (auto simp: answers_200_def execute_in_dynamic_session_def http_200_def Let_def
      active_sessions_track keys_store_put pick_session_def split_beta
      split: option.splits sum.splits)

text \<open>
  Claim C4. Every call of the execution tool works on the last key of the store, the
  key created most recently, when the store is not empty, and on the first 12
  characters of a fresh \<^verbatim>\<open>uuid4().hex\<close> when it is empty; of 32 hexadecimal digits these
  are 12 hexadecimal digits. A call that is answered with HTTP 200 on an empty store
  creates exactly that session, and once the store is not empty every later execution,
  after any number of tool calls, works on the same last key.
\<close>

theorem session_choice_and_reuse:
  "uses_session w code s
     (if active_sessions s \<noteq> [] then fst (last (active_sessions s)) else take 12 (uuid4_hex w)) \<and>
   (length (uuid4_hex w) = 32 \<and> list_all is_hex (uuid4_hex w) \<longrightarrow>
      length (take 12 (uuid4_hex w)) = 12 \<and> list_all is_hex (take 12 (uuid4_hex w))) \<and>
   (active_sessions s = [] \<and> answers_200 w body \<longrightarrow>
      map fst (active_sessions (fst (snd (execute_in_dynamic_session w code s))))
        = [take 12 (uuid4_hex w)]) \<and>
   (active_sessions s \<noteq> [] \<longrightarrow>
      uses_session w2 code2 (agent_run calls s) (fst (last (active_sessions s))))"
proof (intro conjI impI)
  show "uses_session w code s
     (if active_sessions s \<noteq> [] then fst (last (active_sessions s)) else take 12 (uuid4_hex w))"
    using uses_session_pick [of w code s] by (simp add: pick_session_def)
next
  assume "length (uuid4_hex w) = 32 \<and> list_all is_hex (uuid4_hex w)"
  then show "length (take 12 (uuid4_hex w)) = 12" by simp
next
  assume "length (uuid4_hex w) = 32 \<and> list_all is_hex (uuid4_hex w)"
  then show "list_all is_hex (take 12 (uuid4_hex w))"
    by (auto simp: list_all_iff dest: in_set_takeD)
next
  assume "active_sessions s = [] \<and> answers_200 w body"
  then show "map fst (active_sessions (fst (snd (execute_in_dynamic_session w code s))))
        = [take 12 (uuid4_hex w)]"
    using created_on_200 [of s w body code] by simp
next
  assume ne: "active_sessions s \<noteq> []"
  then have keys: "map fst (active_sessions (agent_run calls s)) = map fst (active_sessions s)"
    by (rule agent_run_keys)
  with ne have ne2: "active_sessions (agent_run calls s) \<noteq> []" by (metis map_is_Nil_conv)
  have "pick_session w2 (active_sessions (agent_run calls s)) = fst (last (active_sessions s))"
    using ne keys by (simp add: pick_by_keys [OF ne2] last_map)
  with uses_session_pick [of w2 code2 "agent_run calls s"]
  show "uses_session w2 code2 (agent_run calls s) (fst (last (active_sessions s)))" by simp
qed

theorem session_choice_and_reuse_witness:
  "map fst (active_sessions (fst (snd
      (execute_in_dynamic_session (world_200 success_body) ''print(1)'' initial_state))))
     = [''0123456789ab''] \<and>
   uses_session (world_200 traceback_body) ''1/0''
     (agent_run [Search, Execute (world_200 success_body) ''print(1)''] one_session_state)
     ''0123456789ab''"
proof -
  have fresh: "active_sessions initial_state = [] \<and> answers_200 (world_200 success_body) success_body"
    by (simp add: initial_state_def)
  have hex: "take 12 (uuid4_hex (world_200 success_body)) = ''0123456789ab''"
    by (simp add: world_200_def sandbox_world_def)
  have reuse: "active_sessions one_session_state \<noteq> []"
    by (simp add: one_session_state_def)
  have last: "fst (last (active_sessions one_session_state)) = ''0123456789ab''"
    by (simp add: one_session_state_def)
  show ?thesis
    using session_choice_and_reuse [of "world_200 success_body" "''print(1)''" initial_state
        success_body] fresh hex
      session_choice_and_reuse [of _ _ one_session_state _ "world_200 traceback_body" "''1/0''"
        "[Search, Execute (world_200 success_body) ''print(1)'']"] reuse last
    by simp
qed

subsection \<open>Tracking of tool invocations\<close>






subsection \<open>A missing endpoint\<close>

lemma configuration_error_text: "report_contains ''Configuration Error'' configuration_error"
  by (simp add: report_contains_def configuration_error_def cross_mark_def sublist_code(3))

text \<open>
  Claim C6 reads: without an endpoint the tool returns before it resolves a session and
  before it appends a record, so that the tracker and the seen set are unchanged. The
  code checks the endpoint after both (line 179 follows lines 156-174): in the first
  call of a process the tools-used list and the seen set grow.
\<close>

theorem unconfigured_tracks_before_check_counterexample:
  "SESSION_POOL_ENDPOINT unconfigured_world = None \<and>
   fst (execute_in_dynamic_session unconfigured_world ''print(1)'' initial_state)
     = configuration_error \<and>
   current_tools_used initial_state = [] \<and>
   current_tools_used (fst (snd
       (execute_in_dynamic_session unconfigured_world ''print(1)'' initial_state)))
     = [execution_record ''0123456789ab''] \<and>
   current_request_sessions initial_state = {} \<and>
   current_request_sessions (fst (snd
       (execute_in_dynamic_session unconfigured_world ''print(1)'' initial_state)))
     = {''0123456789ab''}"
  by (simp add: execute_in_dynamic_session_def unconfigured_world_def world_200_def
      sandbox_world_def initial_state_def pick_session_def track_session_def
      execution_record_def Let_def)

text \<open>
  Claim C6, amended. Without an endpoint (the variable unset or empty) the tool returns
  the report with \<^verbatim>\<open>Configuration Error\<close>, does nothing to the outside (no token request, no
  network call) and leaves the session store unchanged; before that it has resolved the
  session identifier, added it to the seen set, and appended a record for it unless the
  identifier was already seen in the request.
\<close>

theorem unconfigured_endpoint_report:
  assumes "SESSION_POOL_ENDPOINT w = None \<or> SESSION_POOL_ENDPOINT w = Some []"
  shows "fst (execute_in_dynamic_session w code s) = configuration_error \<and>
         report_contains ''Configuration Error'' (fst (execute_in_dynamic_session w code s)) \<and>
         snd (snd (execute_in_dynamic_session w code s)) = [] \<and>
         active_sessions (fst (snd (execute_in_dynamic_session w code s))) = active_sessions s \<and>
         current_request_sessions (fst (snd (execute_in_dynamic_session w code s))) =
           insert (pick_session w (active_sessions s)) (current_request_sessions s) \<and>
         current_tools_used (fst (snd (execute_in_dynamic_session w code s))) =
           (if pick_session w (active_sessions s) \<in> current_request_sessions s
            then current_tools_used s
            else current_tools_used s @ [execution_record (pick_session w (active_sessions s))])"
proof -
  have "execute_in_dynamic_session w code s =
          (configuration_error, track_session (pick_session w (active_sessions s)) s, [])"
    using assms by (auto simp: execute_in_dynamic_session_def Let_def)
  then show ?thesis
    by (simp add: configuration_error_text active_sessions_track seen_track tools_track)
qed

theorem unconfigured_endpoint_report_witness:
  "fst (execute_in_dynamic_session unconfigured_world ''print(1)'' one_session_state)
     = configuration_error \<and>
   snd (snd (execute_in_dynamic_session unconfigured_world ''print(1)'' one_session_state)) = [] \<and>
   active_sessions (fst (snd
       (execute_in_dynamic_session unconfigured_world ''print(1)'' one_session_state)))
     = active_sessions one_session_state \<and>
   current_tools_used (fst (snd
       (execute_in_dynamic_session unconfigured_world ''print(1)'' one_session_state)))
     = [execution_record ''0123456789ab'']"
proof -
  have unset: "SESSION_POOL_ENDPOINT unconfigured_world = None
                 \<or> SESSION_POOL_ENDPOINT unconfigured_world = Some []"
    by (simp add: unconfigured_world_def)
  have sid: "pick_session unconfigured_world (active_sessions one_session_state) = ''0123456789ab''"
    by (simp add: pick_session_def one_session_state_def)
  have fresh: "current_request_sessions one_session_state = {}"
     "current_tools_used one_session_state = []"
    by (simp_all add: one_session_state_def)
  show ?thesis
    using unconfigured_endpoint_report [OF unset, of "''print(1)''" one_session_state]
    by (simp add: sid fresh)
qed

subsection \<open>The path of an HTTP 202 answer\<close>

















section \<open>Properties of the sandbox server\<close>




















end
